theory Spec2Isabelle
  imports Complex_Main "HOL-Library.Log_Nat" "HOL-Library.AList"
begin

section \<open>Python values, exceptions and the host services\<close>

text \<open>
  The algorithm of \<^verbatim>\<open>stride_locations.py\<close> handles untyped Python objects: the
  dictionary that \<^verbatim>\<open>eval\<close> returns for the extra parameters and the objects that
  \<^verbatim>\<open>json.loads\<close> returns for the response. A dictionary is the list of its items in
  insertion order. The type \<open>'f\<close> stands for the binary64 floats, which the algorithm only
  passes on; \<open>PObject\<close> is any other Python object, named by its \<^verbatim>\<open>repr\<close>.
\<close>

datatype 'f pyval =
    PNone
  | PBool bool
  | PInt int
  | PFloat 'f
  | PStr string
  | PList "'f pyval list"
  | PDict "('f pyval \<times> 'f pyval) list"
  | PObject string

type_synonym 'f params = "('f pyval \<times> 'f pyval) list"

text \<open>The exception classes that occur, and the part of Python's class hierarchy among them.\<close>

datatype py_exc =
    SyntaxError | IndentationError | TypeError | ValueError | NameError
  | ZeroDivisionError | OverflowError | AttributeError | MemoryError
  | JSONDecodeError | UnicodeDecodeError | QgsCsException

fun subclass_of :: "py_exc \<Rightarrow> py_exc \<Rightarrow> bool" where
  "subclass_of IndentationError SyntaxError = True"
| "subclass_of JSONDecodeError ValueError = True"
| "subclass_of UnicodeDecodeError ValueError = True"
| "subclass_of e c = (e = c)"

text \<open>\<^verbatim>\<open>except (c1, c2)\<close> catches an exception of either class or of a subclass.\<close>

definition caught_by :: "py_exc \<Rightarrow> py_exc list \<Rightarrow> bool" where
  "caught_by e cs = (\<exists>c \<in> set cs. subclass_of e c)"

text \<open>
  What the algorithm raises to its caller: a \<^verbatim>\<open>QgsProcessingException\<close> with its message,
  or a Python exception that no handler of the algorithm catches.
\<close>

datatype error = QgsProcessingException string | Uncaught py_exc

record 'f rect =
  xMinimum :: 'f
  xMaximum :: 'f
  yMinimum :: 'f
  yMaximum :: 'f

record reply =
  reply_error :: "string option"   \<comment> \<open>\<open>Some (errorString())\<close> when \<^verbatim>\<open>reply.error()\<close> is set\<close>
  status_code :: "int option"      \<comment> \<open>the HttpStatusCodeAttribute, \<open>None\<close> when it is absent\<close>
  body :: string                   \<comment> \<open>\<^verbatim>\<open>reply.readAll()\<close>\<close>

text \<open>
  The builtins, the Qt and QGIS calls and the outside world are parameters of the model.
  A call that the source guards with \<^verbatim>\<open>try\<close> returns an exception or a value. \<open>'dt\<close> is
  \<^verbatim>\<open>QDateTime\<close>; \<^verbatim>\<open>QDateTime.fromString\<close> takes a \<^verbatim>\<open>str\<close> and returns a \<^verbatim>\<open>QDateTime\<close> that is invalid
  when the text is not a date. \<open>isCanceled\<close> is asked once in each iteration of the emission
  loop and is indexed by the iteration.
\<close>

record ('f, 'dt) env =
  py_eval :: "string \<Rightarrow> py_exc + 'f pyval"
  py_float :: "'f pyval \<Rightarrow> py_exc + 'f"
  py_str :: "int option \<Rightarrow> string"
  json_loads :: "string \<Rightarrow> (py_exc \<times> string) + 'f pyval"
  transform_extent :: "'f rect \<Rightarrow> py_exc + 'f rect"
  transform_point :: "'f \<times> 'f \<Rightarrow> py_exc + 'f \<times> 'f"
  dt_isValid :: "'dt \<Rightarrow> bool"
  dt_toString :: "'dt \<Rightarrow> string \<Rightarrow> string"
  dt_addSecs :: "'dt \<Rightarrow> int \<Rightarrow> 'dt"
  dt_fromString :: "string \<Rightarrow> 'dt"
  url_toString :: "string \<Rightarrow> 'f params \<Rightarrow> string"
  network_get :: "string \<Rightarrow> 'f params \<Rightarrow> reply"
  parameterAsSink :: "string option"
  isCanceled :: "nat \<Rightarrow> bool"

text \<open>The values of the algorithm's parameters, as the \<^verbatim>\<open>parameterAs...\<close> calls return them.\<close>

record ('f, 'dt) parameters =
  INPUT_PATH :: string
  INPUT_PARAMS :: string
  INPUT_EXTENT :: "'f rect option"   \<comment> \<open>\<open>None\<close> when \<^verbatim>\<open>extent.isNull()\<close>\<close>
  INPUT_START_TIME :: 'dt
  INPUT_DURATION :: int

text \<open>
  A QVariant attribute of a feature, the features and what the algorithm does to the outside:
  messages, the request, the release of the reply, the sink and the progress bar.
\<close>

datatype ('f, 'dt) attr = QVariantNull | QDateTimeValue 'dt | PyValue "'f pyval"

datatype ('f, 'dt) event =
    PushInfo string
  | NetworkGet string "'f params"
  | DeleteLater
  | OpenSink
  | AddFeature "('f \<times> 'f) option" "('f, 'dt) attr list"
  | SetProgress int


section \<open>Building the query parameters (lines 113 to 138)\<close>

definition base_url :: string where
  "base_url = ''https://open-bus-stride-api.hasadna.org.il''"

definition iso_format :: string where
  "iso_format = ''yyyy-MM-ddTHH:mm:ss.zzz'Z'' @ [CHR 0x27]"

text \<open>\<^verbatim>\<open>params[k] = v\<close>: an existing key keeps its place, a new key goes last.\<close>

definition setitem :: "string \<Rightarrow> 'f pyval \<Rightarrow> 'f params \<Rightarrow> 'f params" where
  "setitem k v ps = AList.update (PStr k) v ps"

text \<open>\<^verbatim>\<open>d.get(k)\<close> on a dictionary: the value, or \<^verbatim>\<open>None\<close> for a missing key.\<close>

definition dict_get :: "'f params \<Rightarrow> string \<Rightarrow> 'f pyval" where
  "dict_get kv k = (case map_of kv (PStr k) of None \<Rightarrow> PNone | Some v \<Rightarrow> v)"

definition parse_params :: "('f, 'dt) env \<Rightarrow> string \<Rightarrow> error + 'f params" where
  "parse_params E params_str =
     (if params_str = [] then Inr []
      else case py_eval E params_str of
        Inl e \<Rightarrow>
          if caught_by e [SyntaxError, TypeError]
          then Inl (QgsProcessingException ''Invalid format for parameters.'')
          else Inl (Uncaught e)
      | Inr (PDict kv) \<Rightarrow> Inr kv
      | Inr _ \<Rightarrow> Inl (QgsProcessingException ''Invalid format for parameters.''))"

definition add_extent ::
  "('f, 'dt) env \<Rightarrow> 'f rect option \<Rightarrow> 'f params \<Rightarrow> error + 'f params" where
  "add_extent E extent ps =
     (case extent of
        None \<Rightarrow> Inr ps
      | Some r \<Rightarrow>
          (case transform_extent E r of
             Inl e \<Rightarrow> Inl (Uncaught e)
           | Inr w \<Rightarrow>
               Inr (setitem ''lat__lower_or_equal'' (PFloat (yMaximum w))
                   (setitem ''lat__greater_or_equal'' (PFloat (yMinimum w))
                   (setitem ''lon__lower_or_equal'' (PFloat (xMaximum w))
                   (setitem ''lon__greater_or_equal'' (PFloat (xMinimum w)) ps))))))"

definition add_time ::
  "('f, 'dt) env \<Rightarrow> 'dt \<Rightarrow> int \<Rightarrow> 'f params \<Rightarrow> ('f, 'dt) event list \<times> 'f params" where
  "add_time E start_time duration_minutes ps =
     (if dt_isValid E start_time then
        let t_from = dt_toString E start_time iso_format;
            ps1 = setitem ''recorded_at_time_from'' (PStr t_from) ps;
            ev1 = [PushInfo (''Filtering from start time: '' @ t_from)]
        in if duration_minutes > 0 then
             let end_time = dt_addSecs E start_time (duration_minutes * 60);
                 t_to = dt_toString E end_time iso_format
             in (ev1 @ [PushInfo (''Calculated end time: '' @ t_to)],
                 setitem ''recorded_at_time_to'' (PStr t_to) ps1)
           else (ev1, ps1)
      else ([], ps))"

definition build_query ::
  "('f, 'dt) env \<Rightarrow> ('f, 'dt) parameters \<Rightarrow> ('f, 'dt) event list \<times> (error + 'f params)" where
  "build_query E P =
     (case parse_params E (INPUT_PARAMS P) of
        Inl err \<Rightarrow> ([], Inl err)
      | Inr ps0 \<Rightarrow>
          (case add_extent E (INPUT_EXTENT P) ps0 of
             Inl err \<Rightarrow> ([], Inl err)
           | Inr ps1 \<Rightarrow>
               (case add_time E (INPUT_START_TIME P) (INPUT_DURATION P) ps1 of
                  (evs, ps2) \<Rightarrow> (evs, Inr ps2))))"


section \<open>Fetching the response (lines 140 to 178)\<close>

text \<open>
  What the \<^verbatim>\<open>try\<close> block makes of the finished reply. Only \<^verbatim>\<open>json.JSONDecodeError\<close> has a
  handler; the exceptions raised in the block itself pass through it.
\<close>

definition read_reply :: "('f, 'dt) env \<Rightarrow> reply \<Rightarrow> error + 'f pyval" where
  "read_reply E r =
     (case reply_error r of
        Some msg \<Rightarrow> Inl (QgsProcessingException (''Network request failed: '' @ msg))
      | None \<Rightarrow>
          if status_code r \<noteq> Some 200
          then Inl (QgsProcessingException
                 (''API request failed with HTTP status code '' @ py_str E (status_code r)))
          else (case json_loads E (body r) of
                  Inl (e, msg) \<Rightarrow>
                    if e = JSONDecodeError
                    then Inl (QgsProcessingException (''Failed to parse JSON response: '' @ msg))
                    else Inl (Uncaught e)
                | Inr data \<Rightarrow> Inr data))"

text \<open>The request, the wait for the reply, the \<^verbatim>\<open>try\<close> block and its \<^verbatim>\<open>finally\<close>.\<close>

definition fetch ::
  "('f, 'dt) env \<Rightarrow> string \<Rightarrow> 'f params \<Rightarrow> ('f, 'dt) event list \<times> (error + 'f pyval)" where
  "fetch E api_path ps =
     ([PushInfo (''Requesting data from: '' @ url_toString E (base_url @ api_path) ps),
       NetworkGet (base_url @ api_path) ps,
       DeleteLater],
      read_reply E (network_get E (base_url @ api_path) ps))"


section \<open>The output schema and the mapping of a record (lines 180 to 198, 227 to 238)\<close>

datatype qvariant_type = QLongLong | QDateTime | QDouble | QInt | QString

definition field_definitions :: "(string \<times> qvariant_type) list" where
  "field_definitions =
     [(''id'', QLongLong), (''snapshot_id'', QLongLong), (''ride_stop_id'', QLongLong),
      (''recorded_at'', QDateTime), (''lon'', QDouble), (''lat'', QDouble),
      (''bearing'', QInt), (''velocity'', QInt), (''dist_from_start'', QInt),
      (''dist_from_stop'', QDouble), (''snapshot_str'', QString), (''route_id'', QInt),
      (''line_ref'', QInt), (''operator_ref'', QInt), (''ride_id'', QLongLong),
      (''journey_ref'', QString), (''scheduled_start'', QDateTime), (''vehicle_ref'', QString)]"

definition key_map :: "(string \<times> string) list" where
  "key_map =
     [(''siri_snapshot_id'', ''snapshot_id''), (''siri_ride_stop_id'', ''ride_stop_id''),
      (''recorded_at_time'', ''recorded_at''),
      (''distance_from_journey_start'', ''dist_from_start''),
      (''distance_from_siri_ride_stop_meters'', ''dist_from_stop''),
      (''siri_snapshot__snapshot_id'', ''snapshot_str''), (''siri_route__id'', ''route_id''),
      (''siri_route__line_ref'', ''line_ref''), (''siri_route__operator_ref'', ''operator_ref''),
      (''siri_ride__id'', ''ride_id''), (''siri_ride__journey_ref'', ''journey_ref''),
      (''siri_ride__scheduled_start_time'', ''scheduled_start''),
      (''siri_ride__vehicle_ref'', ''vehicle_ref'')]"

text \<open>\<^verbatim>\<open>next((k for k, v in key_map.items() if v == field.name()), field.name())\<close>\<close>

definition original_key :: "string \<Rightarrow> string" where
  "original_key name =
     (case find (\<lambda>(k, v). v = name) key_map of Some (k, v) \<Rightarrow> k | None \<Rightarrow> name)"

text \<open>
  The body of the inner loop for one field. \<^verbatim>\<open>QDateTime.fromString\<close> is bound for a \<^verbatim>\<open>str\<close>
  argument; the binding raises \<^verbatim>\<open>TypeError\<close> for an object of another type.
\<close>

definition attribute ::
  "('f, 'dt) env \<Rightarrow> 'f params \<Rightarrow> string \<times> qvariant_type \<Rightarrow> py_exc + ('f, 'dt) attr" where
  "attribute E item field =
     (let val = dict_get item (original_key (fst field)) in
      if val = PNone then Inr QVariantNull
      else if snd field = QDateTime then
        (case val of
           PStr s \<Rightarrow> Inr (QDateTimeValue (dt_fromString E s))
         | _ \<Rightarrow> Inl TypeError)
      else Inr (PyValue val))"

fun attributes_of ::
  "('f, 'dt) env \<Rightarrow> 'f params \<Rightarrow> (string \<times> qvariant_type) list
     \<Rightarrow> py_exc + ('f, 'dt) attr list" where
  "attributes_of E item [] = Inr []"
| "attributes_of E item (field # rest) =
     (case attribute E item field of
        Inl e \<Rightarrow> Inl e
      | Inr a \<Rightarrow>
          (case attributes_of E item rest of
             Inl e \<Rightarrow> Inl e
           | Inr vals \<Rightarrow> Inr (a # vals)))"


section \<open>Geometry of a record (lines 219 to 225)\<close>

text \<open>
  The outcome of the geometry step of one iteration: the \<^verbatim>\<open>except\<close> clause ends the
  iteration with \<^verbatim>\<open>continue\<close>, otherwise the feature has a point or no geometry.
\<close>

datatype 'f geometry_step = Continue | Geometry "('f \<times> 'f) option"

definition on_except :: "py_exc \<Rightarrow> py_exc + 'f geometry_step" where
  "on_except e = (if caught_by e [ValueError, TypeError] then Inr Continue else Inl e)"

definition geometry_of :: "('f, 'dt) env \<Rightarrow> 'f params \<Rightarrow> py_exc + 'f geometry_step" where
  "geometry_of E item =
     (if dict_get item ''lon'' \<noteq> PNone \<and> dict_get item ''lat'' \<noteq> PNone then
        (case py_float E (dict_get item ''lon'') of
           Inl e \<Rightarrow> on_except e
         | Inr x \<Rightarrow>
             (case py_float E (dict_get item ''lat'') of
                Inl e \<Rightarrow> on_except e
              | Inr y \<Rightarrow>
                  (case transform_point E (x, y) of
                     Inl e \<Rightarrow> on_except e
                   | Inr g \<Rightarrow> Inr (Geometry (Some g)))))
      else Inr (Geometry None))"

text \<open>
  One iteration of the loop after the cancellation check: \<open>None\<close> when the iteration was
  left by \<^verbatim>\<open>continue\<close>, otherwise the feature handed to \<^verbatim>\<open>sink.addFeature\<close>. An item that is
  not a dictionary has no \<^verbatim>\<open>get\<close>.
\<close>

definition process_item ::
  "('f, 'dt) env \<Rightarrow> 'f pyval \<Rightarrow> py_exc + (('f \<times> 'f) option \<times> ('f, 'dt) attr list) option" where
  "process_item E item =
     (case item of
        PDict kv \<Rightarrow>
          (case geometry_of E kv of
             Inl e \<Rightarrow> Inl e
           | Inr Continue \<Rightarrow> Inr None
           | Inr (Geometry g) \<Rightarrow>
               (case attributes_of E kv field_definitions of
                  Inl e \<Rightarrow> Inl e
                | Inr vals \<Rightarrow> Inr (Some (g, vals))))
      | _ \<Rightarrow> Inl AttributeError)"


section \<open>Progress, as binary64 arithmetic computes it (line 242)\<close>

text \<open>
  \<^verbatim>\<open>int((i + 1) / total * 100)\<close> divides two integers into a float, multiplies the float by
  100 and truncates. Both float operations round the exact result to the nearest binary64
  number, ties to even. The numbers are rationals here; the exponent range is unbounded,
  which is exact for the quotients of list lengths (between \<open>2\<^sup>-\<^sup>6\<^sup>4\<close> and 1).
\<close>

definition round_half_even :: "rat \<Rightarrow> int" where
  "round_half_even r =
     (let f = \<lfloor>r\<rfloor>; d = r - of_int f in
      if d < 1 / 2 then f else if 1 / 2 < d then f + 1 else if even f then f else f + 1)"

text \<open>The exponent \<open>e\<close> of a positive number: \<open>2\<^sup>e \<le> x < 2\<^sup>e\<^sup>+\<^sup>1\<close>.\<close>

definition binade :: "rat \<Rightarrow> int" where
  "binade x = (if 1 \<le> x then bitlen \<lfloor>x\<rfloor> - 1 else - bitlen (\<lceil>1 / x\<rceil> - 1))"

text \<open>Rounding to 53 significant bits.\<close>

definition to_double :: "rat \<Rightarrow> rat" where
  "to_double x =
     (if x = 0 then 0
      else let u = 2 powi (binade \<bar>x\<bar> - 52) in of_int (round_half_even (x / u)) * u)"

text \<open>\<^verbatim>\<open>int(x)\<close> truncates towards zero.\<close>

definition py_int :: "rat \<Rightarrow> int" where
  "py_int x = (if 0 \<le> x then \<lfloor>x\<rfloor> else \<lceil>x\<rceil>)"

definition progress :: "nat \<Rightarrow> nat \<Rightarrow> int" where
  "progress i tot = py_int (to_double (to_double (of_nat (i + 1) / of_nat tot) * 100))"


section \<open>Emission (lines 203 to 244) and the whole algorithm\<close>

text \<open>
  The loop over \<^verbatim>\<open>enumerate(data)\<close> from index \<open>i\<close> on. It returns what it did to the sink
  and the progress bar, and the exception that ended it, if one did.
\<close>

fun emit_loop ::
  "('f, 'dt) env \<Rightarrow> nat \<Rightarrow> nat \<Rightarrow> 'f pyval list \<Rightarrow> ('f, 'dt) event list \<times> py_exc option" where
  "emit_loop E tot i [] = ([], None)"
| "emit_loop E tot i (item # rest) =
     (if isCanceled E i then ([], None)
      else case process_item E item of
        Inl e \<Rightarrow> ([], Some e)
      | Inr None \<Rightarrow> emit_loop E tot (Suc i) rest
      | Inr (Some (g, vals)) \<Rightarrow>
          (case emit_loop E tot (Suc i) rest of
             (evs, r) \<Rightarrow> (AddFeature g vals # SetProgress (progress i tot) # evs, r)))"

definition emit ::
  "('f, 'dt) env \<Rightarrow> 'f pyval list \<Rightarrow> ('f, 'dt) event list \<times> (error + string option)" where
  "emit E data =
     (case parameterAsSink E of
        None \<Rightarrow> ([OpenSink], Inl (QgsProcessingException ''Invalid output specified.''))
      | Some dest_id \<Rightarrow>
          (case emit_loop E (length data) 0 data of
             (evs, r) \<Rightarrow>
               (OpenSink
                  # PushInfo (''Processing '' @ py_str E (Some (int (length data))) @ '' features...'')
                  # evs,
                case r of Some e \<Rightarrow> Inl (Uncaught e) | None \<Rightarrow> Inr (Some dest_id))))"

text \<open>\<^verbatim>\<open>not isinstance(data, list) or not data\<close>\<close>

definition no_items :: "'f pyval \<Rightarrow> bool" where
  "no_items data = (case data of PList xs \<Rightarrow> xs = [] | _ \<Rightarrow> True)"

definition list_items :: "'f pyval \<Rightarrow> 'f pyval list" where
  "list_items data = (case data of PList xs \<Rightarrow> xs | _ \<Rightarrow> [])"

text \<open>
  The algorithm returns what it did and either the error it raised or the value under
  \<^verbatim>\<open>OUTPUT\<close> of the dictionary it returned.
\<close>

definition processAlgorithm ::
  "('f, 'dt) env \<Rightarrow> ('f, 'dt) parameters \<Rightarrow> ('f, 'dt) event list \<times> (error + string option)" where
  "processAlgorithm E P =
     (case build_query E P of
        (ev1, Inl err) \<Rightarrow> (ev1, Inl err)
      | (ev1, Inr ps) \<Rightarrow>
          (case fetch E (INPUT_PATH P) ps of
             (ev2, Inl err) \<Rightarrow> (ev1 @ ev2, Inl err)
           | (ev2, Inr data) \<Rightarrow>
               if no_items data
               then (ev1 @ ev2 @
                       [PushInfo ''Response did not contain a list of items or was empty.''],
                     Inr None)
               else (case emit E (list_items data) of
                       (ev3, r) \<Rightarrow> (ev1 @ ev2 @ ev3, r))))"

text \<open>What a run reported to the progress bar and what it wrote to the sink, in order.\<close>

fun progress_values :: "('f, 'dt) event list \<Rightarrow> int list" where
  "progress_values [] = []"
| "progress_values (SetProgress p # evs) = p # progress_values evs"
| "progress_values (ev # evs) = progress_values evs"

fun features_written :: "('f, 'dt) event list \<Rightarrow> (('f \<times> 'f) option \<times> ('f, 'dt) attr list) list" where
  "features_written [] = []"
| "features_written (AddFeature g vals # evs) = (g, vals) # features_written evs"
| "features_written (ev # evs) = features_written evs"

text \<open>Each feature written is at once followed by a progress report, and no report stands alone.\<close>

fun reported_after_each :: "('f, 'dt) event list \<Rightarrow> bool" where
  "reported_after_each [] = True"
| "reported_after_each (AddFeature g vals # SetProgress p # evs) = reported_after_each evs"
| "reported_after_each (AddFeature g vals # evs) = False"
| "reported_after_each (SetProgress p # evs) = False"
| "reported_after_each (ev # evs) = reported_after_each evs"


section \<open>A mocked upstream for the examples\<close>

text \<open>
  An environment in which the upstream answers 200 with the JSON value \<open>data\<close> and the caller
  cancels as \<open>cancel\<close> says. Floats are rationals and a \<^verbatim>\<open>QDateTime\<close> is its number of seconds
  since the epoch, \<open>None\<close> when invalid. Each builtin is right on the inputs the examples
  give it: \<^verbatim>\<open>eval('bad')\<close> raises \<^verbatim>\<open>NameError\<close>, \<^verbatim>\<open>float('abc')\<close> raises \<^verbatim>\<open>ValueError\<close>.
\<close>

definition mock_eval :: "string \<Rightarrow> py_exc + rat pyval" where
  "mock_eval s =
     (if s = ''{'limit': 2}'' then Inr (PDict [(PStr ''limit'', PInt 2)])
      else if s = ''{'lon__greater_or_equal': 0, 'recorded_at_time_to': 'x'}''
        then Inr (PDict [(PStr ''lon__greater_or_equal'', PInt 0),
                         (PStr ''recorded_at_time_to'', PStr ''x'')])
      else if s = ''[1, 2]'' then Inr (PList [PInt 1, PInt 2])
      else if s = ''bad'' then Inl NameError
      else Inl SyntaxError)"

definition mock_float :: "rat pyval \<Rightarrow> py_exc + rat" where
  "mock_float v =
     (case v of
        PFloat x \<Rightarrow> Inr x
      | PInt n \<Rightarrow> Inr (of_int n)
      | PBool b \<Rightarrow> Inr (if b then 1 else 0)
      | PStr s \<Rightarrow> (if s = ''34.78'' then Inr (3478 / 100)
                   else if s = ''32.07'' then Inr (3207 / 100)
                   else Inl ValueError)
      | _ \<Rightarrow> Inl TypeError)"

definition mock_toString :: "int option \<Rightarrow> string \<Rightarrow> string" where
  "mock_toString d fmt =
     (case d of
        None \<Rightarrow> []
      | Some t \<Rightarrow> (if t = 0 then ''1970-01-01T00:00:00.000Z''
                   else if t = 300 then ''1970-01-01T00:05:00.000Z''
                   else ''later''))"

definition mock_env :: "rat pyval \<Rightarrow> (nat \<Rightarrow> bool) \<Rightarrow> (rat, int option) env" where
  "mock_env data cancel =
     \<lparr> py_eval = mock_eval,
       py_float = mock_float,
       py_str = (\<lambda>n. case n of None \<Rightarrow> ''None''
                   | Some k \<Rightarrow> (if k = 1 then ''1'' else if k = 2 then ''2'' else ''3'')),
       json_loads = (\<lambda>b. Inr data),
       transform_extent = (\<lambda>r. Inr r),
       transform_point = (\<lambda>p. Inr p),
       dt_isValid = (\<lambda>d. d \<noteq> None),
       dt_toString = mock_toString,
       dt_addSecs = (\<lambda>d n. map_option (\<lambda>t. t + n) d),
       dt_fromString = (\<lambda>s. if s = ''1970-01-01T00:05:00Z'' then Some 300 else None),
       url_toString = (\<lambda>u ps. u),
       network_get = (\<lambda>u ps. \<lparr> reply_error = None, status_code = Some 200, body = ''[...]'' \<rparr>),
       parameterAsSink = Some ''memory:'',
       isCanceled = cancel \<rparr>"

definition mock_parameters :: "(rat, int option) parameters" where
  "mock_parameters =
     \<lparr> INPUT_PATH = ''/siri_vehicle_locations/list'',
       INPUT_PARAMS = ''{'limit': 2}'',
       INPUT_EXTENT = None,
       INPUT_START_TIME = None,
       INPUT_DURATION = 5 \<rparr>"

text \<open>Three records: a located one, one with a null longitude, one with a longitude that is no number.\<close>

definition located :: "rat pyval" where
  "located = PDict [(PStr ''id'', PInt 1), (PStr ''lon'', PFloat (3478 / 100)),
                    (PStr ''lat'', PFloat (3207 / 100)),
                    (PStr ''recorded_at_time'', PStr ''1970-01-01T00:05:00Z'')]"

definition unlocated :: "rat pyval" where
  "unlocated = PDict [(PStr ''id'', PInt 2), (PStr ''lon'', PNone),
                      (PStr ''lat'', PFloat (3207 / 100))]"

definition mislocated :: "rat pyval" where
  "mislocated = PDict [(PStr ''id'', PInt 3), (PStr ''lon'', PStr ''abc''),
                       (PStr ''lat'', PStr ''32.07'')]"

text \<open>Records with timestamps: one given as a number of seconds, one as text that is no date.\<close>

definition numeric_recorded_at :: "rat pyval" where
  "numeric_recorded_at = PDict [(PStr ''recorded_at_time'', PInt 1700000000)]"

definition numeric_scheduled_start :: "rat pyval" where
  "numeric_scheduled_start =
     PDict [(PStr ''id'', PInt 4), (PStr ''siri_ride__scheduled_start_time'', PInt 1700000000)]"

definition malformed_recorded_at :: "rat pyval" where
  "malformed_recorded_at =
     PDict [(PStr ''id'', PInt 5), (PStr ''recorded_at_time'', PStr ''yesterday'')]"


section \<open>Rounding is monotone and exact on 1 and 100\<close>





























section \<open>What each stage does to the outside\<close>

lemma map_of_setitem:
  "map_of (setitem k v ps) (PStr k') = (if k' = k then Some v else map_of ps (PStr k'))"
  by (simp add: setitem_def update_conv')

lemma add_time_events:
  "add_time E st d ps = (evs, ps') \<Longrightarrow> ev \<in> set evs \<Longrightarrow> \<exists>m. ev = PushInfo m"
  by (auto simp: add_time_def Let_def split: if_splits)

lemma build_query_events:
  "build_query E P = (evs, r) \<Longrightarrow> ev \<in> set evs \<Longrightarrow> \<exists>m. ev = PushInfo m"
  by (auto simp: build_query_def split: sum.splits prod.splits dest: add_time_events)

lemma emit_loop_events:
  "emit_loop E tot i items = (evs, r) \<Longrightarrow> ev \<in> set evs \<Longrightarrow>
     (\<exists>g vals. ev = AddFeature g vals) \<or> (\<exists>p. ev = SetProgress p)"
proof (induction items arbitrary: i evs r)
  case Nil
  then show ?case by simp
next
  case (Cons item rest)
  show ?case
  proof (cases "isCanceled E i")
    case True
    with Cons.prems show ?thesis by simp
  next
    case False
    show ?thesis
    proof (cases "process_item E item")
      case (Inl e)
      with False Cons.prems show ?thesis by simp
    next
      case (Inr f)
      show ?thesis
      proof (cases f)
        case None
        with Inr False Cons.prems Cons.IH [of "Suc i" evs r] show ?thesis by simp
      next
        case (Some gv)
        obtain g vals where gv: "gv = (g, vals)" by (cases gv)
        obtain evs' r' where rec: "emit_loop E tot (Suc i) rest = (evs', r')"
          by (cases "emit_loop E tot (Suc i) rest")
        from Cons.prems(1) False Inr Some gv rec
        have "evs = AddFeature g vals # SetProgress (progress i tot) # evs'" by simp
        with Cons.prems(2) Cons.IH [OF rec] show ?thesis by auto
      qed
    qed
  qed
qed

lemma emit_events:
  "emit E data = (evs, r) \<Longrightarrow> ev \<in> set evs \<Longrightarrow>
     ev = OpenSink \<or> (\<exists>m. ev = PushInfo m) \<or> (\<exists>g vals. ev = AddFeature g vals) \<or> (\<exists>p. ev = SetProgress p)"
  by (auto simp: emit_def split: option.splits prod.splits dest: emit_loop_events)

lemma request_params:
  assumes "NetworkGet u ps \<in> set (fst (processAlgorithm E P))"
  shows "\<exists>evs. build_query E P = (evs, Inr ps)"
proof -
  obtain ev1 r where q: "build_query E P = (ev1, r)" by (cases "build_query E P")
  have n1: "NetworkGet u ps \<notin> set ev1" using build_query_events [OF q] by auto
  show ?thesis
  proof (cases r)
    case (Inl err)
    with q assms n1 show ?thesis by (simp add: processAlgorithm_def)
  next
    case (Inr ps')
    have n3: "NetworkGet u ps \<notin> set ev3" if "emit E d = (ev3, r3)" for d ev3 r3
      using emit_events [OF that] by auto
    have "ps' = ps" using assms q Inr n1 n3
      by (auto simp: processAlgorithm_def fetch_def split: sum.splits prod.splits if_splits)
    with q Inr show ?thesis by simp
  qed
qed


lemma map_of_setitem_key:
  "map_of (setitem k v ps) k' = (if k' = PStr k then Some v else map_of ps k')"
  by (simp add: setitem_def update_conv')

lemmas mock_simps =
  processAlgorithm_def build_query_def parse_params_def add_extent_def add_time_def
  fetch_def read_reply_def emit_def no_items_def list_items_def mock_env_def
  mock_parameters_def mock_eval_def mock_toString_def setitem_def caught_by_def
  base_url_def Let_def

lemma features_written_append:
  "features_written (xs @ ys) = features_written xs @ features_written ys"
  by (induction xs rule: features_written.induct) auto

lemma progress_values_append:
  "progress_values (xs @ ys) = progress_values xs @ progress_values ys"
  by (induction xs rule: progress_values.induct) auto

lemma features_written_infos:
  "\<forall>ev \<in> set evs. \<exists>m. ev = PushInfo m \<Longrightarrow> features_written evs = []"
  by (induction evs rule: features_written.induct) auto

lemma progress_values_infos:
  "\<forall>ev \<in> set evs. \<exists>m. ev = PushInfo m \<Longrightarrow> progress_values evs = []"
  by (induction evs rule: progress_values.induct) auto


lemma add_extent_other_keys:
  assumes "add_extent E ext ps0 = Inr ps1"
    and "k \<notin> {PStr ''lon__greater_or_equal'', PStr ''lon__lower_or_equal'',
               PStr ''lat__greater_or_equal'', PStr ''lat__lower_or_equal''}"
  shows "map_of ps1 k = map_of ps0 k"
  using assms by (auto simp: add_extent_def map_of_setitem_key split: option.splits sum.splits)

lemma add_extent_bounds:
  assumes "add_extent E (Some r) ps0 = Inr ps1" and "transform_extent E r = Inr w"
  shows "map_of ps1 (PStr ''lon__greater_or_equal'') = Some (PFloat (xMinimum w))"
    and "map_of ps1 (PStr ''lon__lower_or_equal'') = Some (PFloat (xMaximum w))"
    and "map_of ps1 (PStr ''lat__greater_or_equal'') = Some (PFloat (yMinimum w))"
    and "map_of ps1 (PStr ''lat__lower_or_equal'') = Some (PFloat (yMaximum w))"
  using assms by (auto simp: add_extent_def map_of_setitem)

lemma add_time_other_keys:
  assumes "add_time E st d ps1 = (evs, ps2)"
    and "k \<notin> {PStr ''recorded_at_time_from'', PStr ''recorded_at_time_to''}"
  shows "map_of ps2 k = map_of ps1 k"
  using assms by (auto simp: add_time_def Let_def map_of_setitem_key split: if_splits)

lemma add_time_from:
  assumes "add_time E st d ps1 = (evs, ps2)" and "dt_isValid E st"
  shows "map_of ps2 (PStr ''recorded_at_time_from'') = Some (PStr (dt_toString E st iso_format))"
  using assms by (auto simp: add_time_def Let_def map_of_setitem split: if_splits)

lemma add_time_to:
  assumes "add_time E st d ps1 = (evs, ps2)" and "dt_isValid E st" and "0 < d"
  shows "map_of ps2 (PStr ''recorded_at_time_to'') =
           Some (PStr (dt_toString E (dt_addSecs E st (d * 60)) iso_format))"
  using assms by (auto simp: add_time_def Let_def map_of_setitem split: if_splits)

lemma add_time_no_to:
  assumes "add_time E st d ps1 = (evs, ps2)" and "d \<le> 0"
  shows "map_of ps2 (PStr ''recorded_at_time_to'') = map_of ps1 (PStr ''recorded_at_time_to'')"
  using assms by (auto simp: add_time_def Let_def map_of_setitem split: if_splits)

lemma build_query_stages:
  assumes "build_query E P = (evs, Inr ps)"
  obtains ps0 ps1 where "parse_params E (INPUT_PARAMS P) = Inr ps0"
    and "add_extent E (INPUT_EXTENT P) ps0 = Inr ps1"
    and "add_time E (INPUT_START_TIME P) (INPUT_DURATION P) ps1 = (evs, ps)"
  using assms by (auto simp: build_query_def split: sum.splits prod.splits)


section \<open>The emission loop\<close>

lemma length_field_definitions: "length field_definitions = 18"
  by (simp add: field_definitions_def)

lemma attributes_of_Inr:
  "attributes_of E kv flds = Inr vals \<Longrightarrow>
     length vals = length flds \<and> (\<forall>k < length flds. attribute E kv (flds ! k) = Inr (vals ! k))"
proof (induction flds arbitrary: vals)
  case Nil
  then show ?case by simp
next
  case (Cons f flds)
  from Cons.prems obtain a rest where a: "attribute E kv f = Inr a"
    and r: "attributes_of E kv flds = Inr rest" and v: "vals = a # rest"
    by (auto split: sum.splits)
  from Cons.IH [OF r] have ih: "length rest = length flds"
    "\<forall>k < length flds. attribute E kv (flds ! k) = Inr (rest ! k)" by auto
  show ?case
  proof (intro conjI allI impI)
    show "length vals = length (f # flds)" using ih(1) v by simp
  next
    fix k assume "k < length (f # flds)"
    then show "attribute E kv ((f # flds) ! k) = Inr (vals ! k)"
      using a ih(2) v by (cases k) auto
  qed
qed

lemma attributes_of_Inl:
  "attributes_of E kv flds = Inl e \<Longrightarrow> \<exists>f \<in> set flds. attribute E kv f = Inl e"
  by (induction flds) (auto split: sum.splits)

lemma attributes_of_total:
  "\<forall>f \<in> set flds. \<exists>a. attribute E kv f = Inr a \<Longrightarrow> \<exists>vals. attributes_of E kv flds = Inr vals"
  by (induction flds) (auto split: sum.splits)


lemma emit_loop_features:
  "emit_loop E tot i items = (evs, r) \<Longrightarrow> AddFeature g vals \<in> set evs \<Longrightarrow>
     \<exists>item \<in> set items. process_item E item = Inr (Some (g, vals))"
proof (induction items arbitrary: i evs r)
  case Nil
  then show ?case by simp
next
  case (Cons item rest)
  show ?case
  proof (cases "isCanceled E i")
    case True
    with Cons.prems show ?thesis by simp
  next
    case False
    show ?thesis
    proof (cases "process_item E item")
      case (Inl e)
      with False Cons.prems show ?thesis by simp
    next
      case (Inr f)
      show ?thesis
      proof (cases f)
        case None
        with Inr False Cons.prems Cons.IH [of "Suc i" evs r] show ?thesis by simp
      next
        case (Some gv)
        obtain g' vals' where gv: "gv = (g', vals')" by (cases gv)
        obtain evs' r' where rec: "emit_loop E tot (Suc i) rest = (evs', r')"
          by (cases "emit_loop E tot (Suc i) rest")
        from Cons.prems(1) False Inr Some gv rec
        have "evs = AddFeature g' vals' # SetProgress (progress i tot) # evs'" by simp
        with Cons.prems(2) Cons.IH [OF rec] Inr Some gv show ?thesis by auto
      qed
    qed
  qed
qed




lemma emit_loop_cancel_prefix:
  "isCanceled E (i + length pre) \<Longrightarrow> post \<noteq> [] \<Longrightarrow>
     emit_loop E tot i (pre @ post) = emit_loop E tot i pre"
proof (induction pre arbitrary: i)
  case Nil
  then show ?case by (cases post) simp_all
next
  case (Cons item pre)
  from Cons.prems have "isCanceled E (Suc i + length pre)" by simp
  from Cons.IH [OF this Cons.prems(2)]
  have "emit_loop E tot (Suc i) (pre @ post) = emit_loop E tot (Suc i) pre" .
  then show ?case by (simp only: append_Cons emit_loop.simps)
qed






lemma features_written_mem:
  "gv \<in> set (features_written evs) \<Longrightarrow> AddFeature (fst gv) (snd gv) \<in> set evs"
  by (induction evs rule: features_written.induct) auto

lemma reported_after_each_infos:
  "\<forall>ev \<in> set xs. (\<forall>g vals. ev \<noteq> AddFeature g vals) \<and> (\<forall>p. ev \<noteq> SetProgress p) \<Longrightarrow>
     reported_after_each (xs @ ys) = reported_after_each ys"
proof (induction xs)
  case Nil
  then show ?case by simp
next
  case (Cons x xs)
  then show ?case by (cases x) simp_all
qed

lemma run_with_items:
  assumes q: "build_query E P = (ev1, Inr ps)"
    and d: "read_reply E (network_get E (base_url @ INPUT_PATH P) ps) = Inr (PList data)"
    and ne: "data \<noteq> []"
    and sink: "parameterAsSink E = Some dest_id"
    and loop: "emit_loop E (length data) 0 data = (evs, r)"
  shows "processAlgorithm E P =
    ((ev1 @ [PushInfo (''Requesting data from: '' @ url_toString E (base_url @ INPUT_PATH P) ps),
             NetworkGet (base_url @ INPUT_PATH P) ps, DeleteLater, OpenSink,
             PushInfo (''Processing '' @ py_str E (Some (int (length data))) @ '' features...'')])
       @ evs,
     case r of Some e \<Rightarrow> Inl (Uncaught e) | None \<Rightarrow> Inr (Some dest_id))"
  using assms
  by (simp add: processAlgorithm_def fetch_def no_items_def list_items_def emit_def)

lemma run_with_items_projections:
  assumes q: "build_query E P = (ev1, Inr ps)"
    and d: "read_reply E (network_get E (base_url @ INPUT_PATH P) ps) = Inr (PList data)"
    and ne: "data \<noteq> []"
    and sink: "parameterAsSink E = Some dest_id"
    and loop: "emit_loop E (length data) 0 data = (evs, r)"
  shows "features_written (fst (processAlgorithm E P)) = features_written evs"
    and "progress_values (fst (processAlgorithm E P)) = progress_values evs"
    and "reported_after_each (fst (processAlgorithm E P)) = reported_after_each evs"
    and "snd (processAlgorithm E P) = (case r of Some e \<Rightarrow> Inl (Uncaught e) | None \<Rightarrow> Inr (Some dest_id))"
proof -
  note run = run_with_items [OF assms]
  have infos: "\<forall>ev \<in> set ev1. \<exists>m. ev = PushInfo m" using build_query_events [OF q] by blast
  show "features_written (fst (processAlgorithm E P)) = features_written evs"
    using features_written_infos [OF infos] by (simp add: run features_written_append)
  show "progress_values (fst (processAlgorithm E P)) = progress_values evs"
    using progress_values_infos [OF infos] by (simp add: run progress_values_append)
  have "\<forall>ev \<in> set (ev1 @ [PushInfo (''Requesting data from: '' @ url_toString E (base_url @ INPUT_PATH P) ps),
             NetworkGet (base_url @ INPUT_PATH P) ps, DeleteLater, OpenSink,
             PushInfo (''Processing '' @ py_str E (Some (int (length data))) @ '' features...'')]).
          (\<forall>g vals. ev \<noteq> AddFeature g vals) \<and> (\<forall>p. ev \<noteq> SetProgress p)"
    using infos by auto
  from reported_after_each_infos [OF this]
  show "reported_after_each (fst (processAlgorithm E P)) = reported_after_each evs"
    by (simp only: run fst_conv)
  show "snd (processAlgorithm E P) = (case r of Some e \<Rightarrow> Inl (Uncaught e) | None \<Rightarrow> Inr (Some dest_id))"
    by (simp add: run)
qed


lemma attribute_absent:
  "map_of kv (PStr (original_key (fst f))) \<in> {None, Some PNone} \<Longrightarrow>
     attribute E kv f = Inr QVariantNull"
  by (auto simp: attribute_def dict_get_def)

lemma attribute_text:
  "snd f = QDateTime \<Longrightarrow> dict_get kv (original_key (fst f)) = PStr s \<Longrightarrow>
     attribute E kv f = Inr (QDateTimeValue (dt_fromString E s))"
  by (simp add: attribute_def)

lemma attribute_returns:
  "snd f = QDateTime \<longrightarrow>
     dict_get kv (original_key (fst f)) = PNone \<or> (\<exists>s. dict_get kv (original_key (fst f)) = PStr s) \<Longrightarrow>
   \<exists>a. attribute E kv f = Inr a"
  by (auto simp: attribute_def Let_def)

lemma nth_field_definitions:
  "field_definitions ! 3 = (''recorded_at'', QDateTime)"
  "field_definitions ! 4 = (''lon'', QDouble)"
  by (simp_all add: field_definitions_def)


section \<open>Runs against the mocked upstream\<close>

lemma progress_Suc_forms:
  "progress 0 (Suc 0) = 100" "progress 0 (Suc (Suc 0)) = 50" "progress (Suc 0) (Suc (Suc 0)) = 100"
  by code_simp+

lemmas item_simps =
  process_item_def geometry_of_def on_except_def dict_get_def attribute_def original_key_def
  key_map_def field_definitions_def mock_float_def




lemma mock_run_only_mislocated:
  "processAlgorithm (mock_env (PList [mislocated]) (\<lambda>i. False)) mock_parameters =
  ([PushInfo
    ''Requesting data from: https://open-bus-stride-api.hasadna.org.il/siri_vehicle_locations/list'',
   NetworkGet
    ''https://open-bus-stride-api.hasadna.org.il/siri_vehicle_locations/list''
    [(PStr ''limit'', PInt 2)],
   DeleteLater, OpenSink, PushInfo ''Processing 1 features...''],
  Inr (Some ''memory:''))"
  by (simp add: mock_simps item_simps mislocated_def progress_Suc_forms)

lemma mock_query:
  "build_query (mock_env data cancel) mock_parameters = ([], Inr [(PStr ''limit'', PInt 2)])"
  by (simp add: mock_simps)

lemma mock_reply:
  "read_reply (mock_env data cancel)
     (network_get (mock_env data cancel) (base_url @ INPUT_PATH mock_parameters) ps) = Inr data"
  by (simp add: mock_simps)

lemma mock_sink: "parameterAsSink (mock_env data cancel) = Some ''memory:''"
  by (simp add: mock_env_def)

lemma mock_loop_before_cancel:
  "emit_loop (mock_env data (\<lambda>i. i = 1)) (Suc (Suc 0)) 0 [located] =
     ([AddFeature (Some (1739 / 50, 3207 / 100))
        [PyValue (PInt 1), QVariantNull, QVariantNull,
         QDateTimeValue (Some 300), PyValue (PFloat (1739 / 50)),
         PyValue (PFloat (3207 / 100)), QVariantNull, QVariantNull,
         QVariantNull, QVariantNull, QVariantNull, QVariantNull, QVariantNull,
         QVariantNull, QVariantNull, QVariantNull, QVariantNull, QVariantNull],
       SetProgress 50], None)"
  by (simp add: mock_env_def item_simps located_def progress_Suc_forms)


section \<open>The claims\<close>

subsection \<open>C1: coordinates that are not numbers\<close>

text \<open>
  C1, as the code has it. When one of \<^verbatim>\<open>lon\<close> and \<^verbatim>\<open>lat\<close> is null, the record gets no
  geometry and its attributes are mapped: when the mapping returns, the iteration writes the
  record to the sink with these attributes and no geometry and reports progress, and when
  the mapping raises, the exception leaves the iteration. When both are non-null and
  \<^verbatim>\<open>float\<close> raises \<^verbatim>\<open>ValueError\<close> or \<^verbatim>\<open>TypeError\<close> on \<^verbatim>\<open>lon\<close>, or else on \<^verbatim>\<open>lat\<close>, the record is
  skipped: the iteration writes nothing and reports no progress, and the loop goes on with
  the next record, so the failure does not abort the batch.
\<close>

theorem unparsable_coordinates_skip_the_record:
  "((dict_get kv ''lon'' = PNone \<or> dict_get kv ''lat'' = PNone) \<and>
    attributes_of E kv field_definitions = Inr vals \<and> \<not> isCanceled E i \<longrightarrow>
      process_item E (PDict kv) = Inr (Some (None, vals)) \<and>
      emit_loop E tot i (PDict kv # rest) =
        (AddFeature None vals # SetProgress (progress i tot)
           # fst (emit_loop E tot (Suc i) rest),
         snd (emit_loop E tot (Suc i) rest))) \<and>
   ((dict_get kv ''lon'' = PNone \<or> dict_get kv ''lat'' = PNone) \<and>
    attributes_of E kv field_definitions = Inl x \<longrightarrow>
      process_item E (PDict kv) = Inl x) \<and>
   (dict_get kv ''lon'' \<noteq> PNone \<and> dict_get kv ''lat'' \<noteq> PNone \<and>
    ((\<exists>e. py_float E (dict_get kv ''lon'') = Inl e \<and> caught_by e [ValueError, TypeError]) \<or>
     (\<exists>x e. py_float E (dict_get kv ''lon'') = Inr x \<and>
            py_float E (dict_get kv ''lat'') = Inl e \<and> caught_by e [ValueError, TypeError])) \<and>
    \<not> isCanceled E i \<longrightarrow>
      process_item E (PDict kv) = Inr None \<and>
      emit_loop E tot i (PDict kv # rest) = emit_loop E tot (Suc i) rest)"
proof (intro conjI impI)
  assume a: "(dict_get kv ''lon'' = PNone \<or> dict_get kv ''lat'' = PNone) \<and>
    attributes_of E kv field_definitions = Inr vals \<and> \<not> isCanceled E i"
  then have g: "geometry_of E kv = Inr (Geometry None)" by (auto simp: geometry_of_def)
  with a show p: "process_item E (PDict kv) = Inr (Some (None, vals))"
    by (simp add: process_item_def)
  from a p show "emit_loop E tot i (PDict kv # rest) =
        (AddFeature None vals # SetProgress (progress i tot)
           # fst (emit_loop E tot (Suc i) rest),
         snd (emit_loop E tot (Suc i) rest))"
    by (simp add: case_prod_beta)
next
  assume a: "(dict_get kv ''lon'' = PNone \<or> dict_get kv ''lat'' = PNone) \<and>
    attributes_of E kv field_definitions = Inl x"
  then have "geometry_of E kv = Inr (Geometry None)" by (auto simp: geometry_of_def)
  with a show "process_item E (PDict kv) = Inl x" by (simp add: process_item_def)
next
  assume a: "dict_get kv ''lon'' \<noteq> PNone \<and> dict_get kv ''lat'' \<noteq> PNone \<and>
    ((\<exists>e. py_float E (dict_get kv ''lon'') = Inl e \<and> caught_by e [ValueError, TypeError]) \<or>
     (\<exists>x e. py_float E (dict_get kv ''lon'') = Inr x \<and>
            py_float E (dict_get kv ''lat'') = Inl e \<and> caught_by e [ValueError, TypeError])) \<and>
    \<not> isCanceled E i"
  then have "geometry_of E kv = Inr Continue" by (auto simp: geometry_of_def on_except_def)
  then show p: "process_item E (PDict kv) = Inr None" by (simp add: process_item_def)
  from a p show "emit_loop E tot i (PDict kv # rest) = emit_loop E tot (Suc i) rest" by simp
qed

text \<open>
  The unlocated record, whose longitude is null, and the mislocated record, whose longitude
  is the text \<^verbatim>\<open>abc\<close>, each at the head of a list of two.
\<close>

theorem unparsable_coordinates_skip_the_record_witness:
  "dict_get [(PStr ''id'', PInt 2), (PStr ''lon'', PNone), (PStr ''lat'', PFloat (3207 / 100))] ''lon''
     = (PNone :: rat pyval) \<and>
   attributes_of (mock_env (PList [unlocated, located]) (\<lambda>i. False))
     [(PStr ''id'', PInt 2), (PStr ''lon'', PNone), (PStr ''lat'', PFloat (3207 / 100))]
     field_definitions
   = Inr [PyValue (PInt 2), QVariantNull, QVariantNull, QVariantNull,
          QVariantNull, PyValue (PFloat (3207 / 100)), QVariantNull,
          QVariantNull, QVariantNull, QVariantNull, QVariantNull, QVariantNull,
          QVariantNull, QVariantNull, QVariantNull, QVariantNull, QVariantNull,
          QVariantNull] \<and>
   process_item (mock_env (PList [unlocated, located]) (\<lambda>i. False)) unlocated
   = Inr (Some (None,
        [PyValue (PInt 2), QVariantNull, QVariantNull, QVariantNull,
         QVariantNull, PyValue (PFloat (3207 / 100)), QVariantNull,
         QVariantNull, QVariantNull, QVariantNull, QVariantNull, QVariantNull,
         QVariantNull, QVariantNull, QVariantNull, QVariantNull, QVariantNull,
         QVariantNull])) \<and>
   dict_get [(PStr ''id'', PInt 3), (PStr ''lon'', PStr ''abc''), (PStr ''lat'', PStr ''32.07'')] ''lon''
     = (PStr ''abc'' :: rat pyval) \<and>
   dict_get [(PStr ''id'', PInt 3), (PStr ''lon'', PStr ''abc''), (PStr ''lat'', PStr ''32.07'')] ''lat''
     = (PStr ''32.07'' :: rat pyval) \<and>
   py_float (mock_env (PList [mislocated, located]) (\<lambda>i. False)) (PStr ''abc'') = Inl ValueError \<and>
   caught_by ValueError [ValueError, TypeError] \<and>
   emit_loop (mock_env (PList [mislocated, located]) (\<lambda>i. False)) 2 0 [mislocated, located]
     = emit_loop (mock_env (PList [mislocated, located]) (\<lambda>i. False)) 2 (Suc 0) [located]"
proof -
  have a: "dict_get [(PStr ''id'', PInt 2), (PStr ''lon'', PNone), (PStr ''lat'', PFloat (3207 / 100))]
      ''lon'' = (PNone :: rat pyval)"
    by (simp add: dict_get_def)
  have b: "attributes_of (mock_env (PList [unlocated, located]) (\<lambda>i. False))
     [(PStr ''id'', PInt 2), (PStr ''lon'', PNone), (PStr ''lat'', PFloat (3207 / 100))]
     field_definitions
   = Inr [PyValue (PInt 2), QVariantNull, QVariantNull, QVariantNull,
          QVariantNull, PyValue (PFloat (3207 / 100)), QVariantNull,
          QVariantNull, QVariantNull, QVariantNull, QVariantNull, QVariantNull,
          QVariantNull, QVariantNull, QVariantNull, QVariantNull, QVariantNull,
          QVariantNull]"
    by (simp add: item_simps)
  have c: "\<not> isCanceled (mock_env (PList [unlocated, located]) (\<lambda>i. False)) 0"
    by (simp add: mock_env_def)
  from unparsable_coordinates_skip_the_record
    [where kv = "[(PStr ''id'', PInt 2), (PStr ''lon'', PNone), (PStr ''lat'', PFloat (3207 / 100))]"
       and E = "mock_env (PList [unlocated, located]) (\<lambda>i. False)" and i = 0
       and vals = "[PyValue (PInt 2), QVariantNull, QVariantNull, QVariantNull,
          QVariantNull, PyValue (PFloat (3207 / 100)), QVariantNull,
          QVariantNull, QVariantNull, QVariantNull, QVariantNull, QVariantNull,
          QVariantNull, QVariantNull, QVariantNull, QVariantNull, QVariantNull,
          QVariantNull]"] a b c
  have "process_item (mock_env (PList [unlocated, located]) (\<lambda>i. False))
      (PDict [(PStr ''id'', PInt 2), (PStr ''lon'', PNone), (PStr ''lat'', PFloat (3207 / 100))])
   = Inr (Some (None,
        [PyValue (PInt 2), QVariantNull, QVariantNull, QVariantNull,
         QVariantNull, PyValue (PFloat (3207 / 100)), QVariantNull,
         QVariantNull, QVariantNull, QVariantNull, QVariantNull, QVariantNull,
         QVariantNull, QVariantNull, QVariantNull, QVariantNull, QVariantNull,
         QVariantNull]))"
    by blast
  then have d: "process_item (mock_env (PList [unlocated, located]) (\<lambda>i. False)) unlocated
   = Inr (Some (None,
        [PyValue (PInt 2), QVariantNull, QVariantNull, QVariantNull,
         QVariantNull, PyValue (PFloat (3207 / 100)), QVariantNull,
         QVariantNull, QVariantNull, QVariantNull, QVariantNull, QVariantNull,
         QVariantNull, QVariantNull, QVariantNull, QVariantNull, QVariantNull,
         QVariantNull]))"
    by (simp only: unlocated_def)
  have e: "dict_get [(PStr ''id'', PInt 3), (PStr ''lon'', PStr ''abc''), (PStr ''lat'', PStr ''32.07'')]
      ''lon'' = (PStr ''abc'' :: rat pyval)"
    "dict_get [(PStr ''id'', PInt 3), (PStr ''lon'', PStr ''abc''), (PStr ''lat'', PStr ''32.07'')]
      ''lat'' = (PStr ''32.07'' :: rat pyval)"
    by (simp_all add: dict_get_def)
  have f: "py_float (mock_env (PList [mislocated, located]) (\<lambda>i. False)) (PStr ''abc'')
      = Inl ValueError"
    "caught_by ValueError [ValueError, TypeError]"
    "\<not> isCanceled (mock_env (PList [mislocated, located]) (\<lambda>i. False)) 0"
    by (simp_all add: mock_env_def mock_float_def caught_by_def)
  have ne: "(PStr ''abc'' :: rat pyval) \<noteq> PNone" "(PStr ''32.07'' :: rat pyval) \<noteq> PNone"
    by simp_all
  from unparsable_coordinates_skip_the_record
    [where kv = "[(PStr ''id'', PInt 3), (PStr ''lon'', PStr ''abc''), (PStr ''lat'', PStr ''32.07'')]"
       and E = "mock_env (PList [mislocated, located]) (\<lambda>i. False)" and i = 0 and tot = 2
       and rest = "[located]"] e f ne
  have "emit_loop (mock_env (PList [mislocated, located]) (\<lambda>i. False)) 2 0
      (PDict [(PStr ''id'', PInt 3), (PStr ''lon'', PStr ''abc''), (PStr ''lat'', PStr ''32.07'')]
         # [located])
     = emit_loop (mock_env (PList [mislocated, located]) (\<lambda>i. False)) 2 (Suc 0) [located]"
    by metis
  then have g: "emit_loop (mock_env (PList [mislocated, located]) (\<lambda>i. False)) 2 0
      [mislocated, located]
     = emit_loop (mock_env (PList [mislocated, located]) (\<lambda>i. False)) 2 (Suc 0) [located]"
    by (simp only: mislocated_def)
  from a b d e f(1,2) g show ?thesis by (intro conjI)
qed

text \<open>
  C1 as stated fails: \<^verbatim>\<open>float('abc')\<close> raises \<^verbatim>\<open>ValueError\<close>, and the run over the mislocated
  record alone ends without an error and with nothing written to the sink.
\<close>

theorem mislocated_record_is_not_emitted:
  "mislocated = PDict [(PStr ''id'', PInt 3), (PStr ''lon'', PStr ''abc''),
                       (PStr ''lat'', PStr ''32.07'')] \<and>
   py_float (mock_env (PList [mislocated]) (\<lambda>i. False)) (PStr ''abc'') = Inl ValueError \<and>
   features_written (fst (processAlgorithm (mock_env (PList [mislocated]) (\<lambda>i. False))
     mock_parameters)) = [] \<and>
   snd (processAlgorithm (mock_env (PList [mislocated]) (\<lambda>i. False)) mock_parameters)
     = Inr (Some ''memory:'')"
  by (simp add: mock_run_only_mislocated) (simp add: mock_env_def mock_float_def mislocated_def)


subsection \<open>C2: extra parameters that are no dictionary\<close>

text \<open>
  C2 asks that every non-empty text of extra parameters that is no mapping literal ends the
  run with the message \<^verbatim>\<open>Invalid format for parameters.\<close> and without a request. The code
  misses a case: the handler at line 118 names \<^verbatim>\<open>SyntaxError\<close> and \<^verbatim>\<open>TypeError\<close> only. When the text
  is not empty and \<^verbatim>\<open>eval\<close> raises an exception of neither class, the run ends with that
  exception, uncaught, instead of the message; it has done nothing before, so no request
  is issued.
\<close>

theorem uncaught_eval_exception:
  assumes "INPUT_PARAMS P \<noteq> []"
    and "py_eval E (INPUT_PARAMS P) = Inl e"
    and "\<not> caught_by e [SyntaxError, TypeError]"
  shows "processAlgorithm E P = ([], Inl (Uncaught e))"
  using assms by (simp add: processAlgorithm_def build_query_def parse_params_def)

text \<open>The text \<^verbatim>\<open>bad\<close>, for which \<^verbatim>\<open>eval\<close> raises \<^verbatim>\<open>NameError\<close>.\<close>

theorem uncaught_eval_exception_witness:
  "INPUT_PARAMS (mock_parameters\<lparr>INPUT_PARAMS := ''bad''\<rparr>) \<noteq> [] \<and>
   py_eval (mock_env (PList []) (\<lambda>i. False)) ''bad'' = Inl NameError \<and>
   \<not> caught_by NameError [SyntaxError, TypeError] \<and>
   processAlgorithm (mock_env (PList []) (\<lambda>i. False)) (mock_parameters\<lparr>INPUT_PARAMS := ''bad''\<rparr>)
     = ([], Inl (Uncaught NameError))"
  using uncaught_eval_exception [of "mock_parameters\<lparr>INPUT_PARAMS := ''bad''\<rparr>"
      "mock_env (PList []) (\<lambda>i. False)" NameError]
  by (simp add: mock_env_def mock_eval_def caught_by_def mock_parameters_def)


subsection \<open>C3: progress\<close>





subsection \<open>C4: a response without items\<close>

text \<open>
  C4. If the request succeeds with status 200 and the body parses as JSON to a value that is
  not a non-empty array, the algorithm returns \<^verbatim>\<open>{OUTPUT: None}\<close>, raises no error, pushes the
  notice, and never opens the sink, so that nothing is written.
\<close>

theorem no_data_result:
  assumes q: "build_query E P = (ev1, Inr ps)"
    and ok: "reply_error (network_get E (base_url @ INPUT_PATH P) ps) = None"
      "status_code (network_get E (base_url @ INPUT_PATH P) ps) = Some 200"
    and js: "json_loads E (body (network_get E (base_url @ INPUT_PATH P) ps)) = Inr data"
    and nd: "\<forall>x xs. data \<noteq> PList (x # xs)"
  shows "snd (processAlgorithm E P) = Inr None \<and>
         PushInfo ''Response did not contain a list of items or was empty.''
           \<in> set (fst (processAlgorithm E P)) \<and>
         OpenSink \<notin> set (fst (processAlgorithm E P)) \<and>
         features_written (fst (processAlgorithm E P)) = []"
proof -
  have rr: "read_reply E (network_get E (base_url @ INPUT_PATH P) ps) = Inr data"
    using ok js by (simp add: read_reply_def)
  have ni: "no_items data"
  proof (cases data)
    case (PList xs)
    with nd show ?thesis by (cases xs) (simp_all add: no_items_def)
  qed (simp_all add: no_items_def)
  have pa: "processAlgorithm E P =
      (ev1 @ [PushInfo (''Requesting data from: '' @ url_toString E (base_url @ INPUT_PATH P) ps),
              NetworkGet (base_url @ INPUT_PATH P) ps, DeleteLater,
              PushInfo ''Response did not contain a list of items or was empty.''], Inr None)"
    using q rr ni by (simp add: processAlgorithm_def fetch_def)
  have e1: "OpenSink \<notin> set ev1" using build_query_events [OF q] by auto
  have f1: "features_written ev1 = []"
    using build_query_events [OF q] by (intro features_written_infos) blast
  show ?thesis using e1 f1 by (simp add: pa features_written_append)
qed


text \<open>The mocked upstream returns \<^verbatim>\<open>[]\<close>.\<close>

theorem no_data_result_witness:
  "build_query (mock_env (PList []) (\<lambda>i. False)) mock_parameters = ([], Inr [(PStr ''limit'', PInt 2)]) \<and>
   processAlgorithm (mock_env (PList []) (\<lambda>i. False)) mock_parameters =
     ([PushInfo (''Requesting data from: '' @ base_url @ ''/siri_vehicle_locations/list''),
       NetworkGet (base_url @ ''/siri_vehicle_locations/list'') [(PStr ''limit'', PInt 2)],
       DeleteLater,
       PushInfo ''Response did not contain a list of items or was empty.''],
      Inr None) \<and>
   OpenSink \<notin> set (fst (processAlgorithm (mock_env (PList []) (\<lambda>i. False)) mock_parameters))"
  using no_data_result [of "mock_env (PList []) (\<lambda>i. False)" mock_parameters "[]"
      "[(PStr ''limit'', PInt 2)]" "PList []"]
  by (simp add: mock_simps)


subsection \<open>C5: the time window\<close>

text \<open>
  C5. In the parameters of the request that the algorithm issues: when the duration is zero or
  negative, the algorithm does not set \<^verbatim>\<open>recorded_at_time_to\<close> (the key holds what the extra
  parameters gave it, nothing when they did not name it), also when a valid start time sets
  \<^verbatim>\<open>recorded_at_time_from\<close>; when the duration is positive and the start time valid,
  \<^verbatim>\<open>recorded_at_time_to\<close> is the start time plus \<open>duration * 60\<close> seconds, printed in the format
  of \<^verbatim>\<open>recorded_at_time_from\<close>.
\<close>

theorem time_window_parameters:
  assumes net: "NetworkGet u ps \<in> set (fst (processAlgorithm E P))"
    and extra: "parse_params E (INPUT_PARAMS P) = Inr extra"
  shows "(INPUT_DURATION P \<le> 0 \<longrightarrow>
            map_of ps (PStr ''recorded_at_time_to'') = map_of extra (PStr ''recorded_at_time_to'') \<and>
            (dt_isValid E (INPUT_START_TIME P) \<longrightarrow>
               map_of ps (PStr ''recorded_at_time_from'') =
                 Some (PStr (dt_toString E (INPUT_START_TIME P) iso_format)))) \<and>
         (0 < INPUT_DURATION P \<and> dt_isValid E (INPUT_START_TIME P) \<longrightarrow>
            map_of ps (PStr ''recorded_at_time_from'') =
              Some (PStr (dt_toString E (INPUT_START_TIME P) iso_format)) \<and>
            map_of ps (PStr ''recorded_at_time_to'') =
              Some (PStr (dt_toString E
                (dt_addSecs E (INPUT_START_TIME P) (INPUT_DURATION P * 60)) iso_format)))"
proof -
  from request_params [OF net] obtain evs where q: "build_query E P = (evs, Inr ps)" ..
  from q obtain ps0 ps1 where st: "parse_params E (INPUT_PARAMS P) = Inr ps0"
      "add_extent E (INPUT_EXTENT P) ps0 = Inr ps1"
      "add_time E (INPUT_START_TIME P) (INPUT_DURATION P) ps1 = (evs, ps)"
    by (rule build_query_stages)
  from st(1) extra have ps0: "ps0 = extra" by simp
  have keep: "map_of ps1 (PStr ''recorded_at_time_to'') = map_of extra (PStr ''recorded_at_time_to'')"
    using add_extent_other_keys [OF st(2), of "PStr ''recorded_at_time_to''"] ps0 by simp
  show ?thesis
    using add_time_no_to [OF st(3)] add_time_from [OF st(3)] add_time_to [OF st(3)] keep
    by simp
qed

text \<open>Start at the epoch with duration 0, then with the default 5 minutes.\<close>

theorem time_window_parameters_witness:
  "NetworkGet (base_url @ ''/siri_vehicle_locations/list'')
     [(PStr ''limit'', PInt 2), (PStr ''recorded_at_time_from'', PStr ''1970-01-01T00:00:00.000Z'')]
     \<in> set (fst (processAlgorithm (mock_env (PList []) (\<lambda>i. False))
               (mock_parameters\<lparr>INPUT_START_TIME := Some 0, INPUT_DURATION := 0\<rparr>))) \<and>
   parse_params (mock_env (PList []) (\<lambda>i. False)) ''{'limit': 2}''
     = Inr [(PStr ''limit'', PInt 2)] \<and>
   map_of [(PStr ''limit'', PInt 2),
           (PStr ''recorded_at_time_from'', PStr ''1970-01-01T00:00:00.000Z'')]
     (PStr ''recorded_at_time_to'') = (None :: rat pyval option) \<and>
   NetworkGet (base_url @ ''/siri_vehicle_locations/list'')
     [(PStr ''limit'', PInt 2), (PStr ''recorded_at_time_from'', PStr ''1970-01-01T00:00:00.000Z''),
      (PStr ''recorded_at_time_to'', PStr ''1970-01-01T00:05:00.000Z'')]
     \<in> set (fst (processAlgorithm (mock_env (PList []) (\<lambda>i. False))
               (mock_parameters\<lparr>INPUT_START_TIME := Some 0\<rparr>))) \<and>
   dt_toString (mock_env (PList []) (\<lambda>i. False))
     (dt_addSecs (mock_env (PList []) (\<lambda>i. False)) (Some 0) (5 * 60)) iso_format
     = ''1970-01-01T00:05:00.000Z''"
  using time_window_parameters [of "base_url @ ''/siri_vehicle_locations/list''"
      "[(PStr ''limit'', PInt 2), (PStr ''recorded_at_time_from'', PStr ''1970-01-01T00:00:00.000Z'')]"
      "mock_env (PList []) (\<lambda>i. False)"
      "mock_parameters\<lparr>INPUT_START_TIME := Some 0, INPUT_DURATION := 0\<rparr>"
      "[(PStr ''limit'', PInt 2)]"]
    time_window_parameters [of "base_url @ ''/siri_vehicle_locations/list''"
      "[(PStr ''limit'', PInt 2), (PStr ''recorded_at_time_from'', PStr ''1970-01-01T00:00:00.000Z''),
        (PStr ''recorded_at_time_to'', PStr ''1970-01-01T00:05:00.000Z'')]"
      "mock_env (PList []) (\<lambda>i. False)"
      "mock_parameters\<lparr>INPUT_START_TIME := Some 0\<rparr>"
      "[(PStr ''limit'', PInt 2)]"]
  by (simp add: mock_simps)


subsection \<open>C6: the bounds of the extent win over the extra parameters\<close>

text \<open>
  C6. When an extent is set, the request carries the four bounds of the reprojected extent
  under \<^verbatim>\<open>lon__greater_or_equal\<close>, \<^verbatim>\<open>lon__lower_or_equal\<close>, \<^verbatim>\<open>lat__greater_or_equal\<close> and
  \<^verbatim>\<open>lat__lower_or_equal\<close>, whatever the extra parameters gave these keys; the start time is
  written after them, and every key that is neither a bound nor a time key keeps the value
  of the extra parameters.
\<close>

theorem bounds_overwrite_extra_parameters:
  assumes net: "NetworkGet u ps \<in> set (fst (processAlgorithm E P))"
    and extra: "parse_params E (INPUT_PARAMS P) = Inr extra"
    and ext: "INPUT_EXTENT P = Some r"
    and tr: "transform_extent E r = Inr w"
  shows "map_of ps (PStr ''lon__greater_or_equal'') = Some (PFloat (xMinimum w)) \<and>
         map_of ps (PStr ''lon__lower_or_equal'') = Some (PFloat (xMaximum w)) \<and>
         map_of ps (PStr ''lat__greater_or_equal'') = Some (PFloat (yMinimum w)) \<and>
         map_of ps (PStr ''lat__lower_or_equal'') = Some (PFloat (yMaximum w)) \<and>
         (dt_isValid E (INPUT_START_TIME P) \<longrightarrow>
            map_of ps (PStr ''recorded_at_time_from'') =
              Some (PStr (dt_toString E (INPUT_START_TIME P) iso_format))) \<and>
         (\<forall>k. k \<notin> {PStr ''lon__greater_or_equal'', PStr ''lon__lower_or_equal'',
                    PStr ''lat__greater_or_equal'', PStr ''lat__lower_or_equal'',
                    PStr ''recorded_at_time_from'', PStr ''recorded_at_time_to''} \<longrightarrow>
              map_of ps k = map_of extra k)"
proof -
  from request_params [OF net] obtain evs where q: "build_query E P = (evs, Inr ps)" ..
  from q obtain ps0 ps1 where st: "parse_params E (INPUT_PARAMS P) = Inr ps0"
      "add_extent E (INPUT_EXTENT P) ps0 = Inr ps1"
      "add_time E (INPUT_START_TIME P) (INPUT_DURATION P) ps1 = (evs, ps)"
    by (rule build_query_stages)
  from st(1) extra have ps0: "ps0 = extra" by simp
  note b = add_extent_bounds [OF st(2) [unfolded ext] tr]
  have "map_of ps (PStr ''lon__greater_or_equal'') = Some (PFloat (xMinimum w))"
    using add_time_other_keys [OF st(3), of "PStr ''lon__greater_or_equal''"] b(1) by simp
  moreover have "map_of ps (PStr ''lon__lower_or_equal'') = Some (PFloat (xMaximum w))"
    using add_time_other_keys [OF st(3), of "PStr ''lon__lower_or_equal''"] b(2) by simp
  moreover have "map_of ps (PStr ''lat__greater_or_equal'') = Some (PFloat (yMinimum w))"
    using add_time_other_keys [OF st(3), of "PStr ''lat__greater_or_equal''"] b(3) by simp
  moreover have "map_of ps (PStr ''lat__lower_or_equal'') = Some (PFloat (yMaximum w))"
    using add_time_other_keys [OF st(3), of "PStr ''lat__lower_or_equal''"] b(4) by simp
  moreover have "dt_isValid E (INPUT_START_TIME P) \<longrightarrow>
      map_of ps (PStr ''recorded_at_time_from'') = Some (PStr (dt_toString E (INPUT_START_TIME P) iso_format))"
    using add_time_from [OF st(3)] by simp
  moreover have "map_of ps k = map_of extra k"
    if "k \<notin> {PStr ''lon__greater_or_equal'', PStr ''lon__lower_or_equal'',
                    PStr ''lat__greater_or_equal'', PStr ''lat__lower_or_equal'',
                    PStr ''recorded_at_time_from'', PStr ''recorded_at_time_to''}" for k
    using add_time_other_keys [OF st(3), of k] add_extent_other_keys [OF st(2), of k] that ps0
    by simp
  ultimately show ?thesis by blast
qed

text \<open>The extra parameters name \<^verbatim>\<open>lon__greater_or_equal\<close>; the extent replaces its value in place.\<close>

theorem bounds_overwrite_extra_parameters_witness:
  "NetworkGet (base_url @ ''/siri_vehicle_locations/list'')
     [(PStr ''lon__greater_or_equal'', PFloat 34), (PStr ''recorded_at_time_to'', PStr ''x''),
      (PStr ''lon__lower_or_equal'', PFloat 35), (PStr ''lat__greater_or_equal'', PFloat 31),
      (PStr ''lat__lower_or_equal'', PFloat 32)]
     \<in> set (fst (processAlgorithm (mock_env (PList []) (\<lambda>i. False))
               (mock_parameters\<lparr>
                  INPUT_PARAMS := ''{'lon__greater_or_equal': 0, 'recorded_at_time_to': 'x'}'',
                  INPUT_EXTENT := Some \<lparr>xMinimum = 34, xMaximum = 35, yMinimum = 31, yMaximum = 32\<rparr>\<rparr>))) \<and>
   parse_params (mock_env (PList []) (\<lambda>i. False))
     ''{'lon__greater_or_equal': 0, 'recorded_at_time_to': 'x'}''
     = Inr [(PStr ''lon__greater_or_equal'', PInt 0), (PStr ''recorded_at_time_to'', PStr ''x'')] \<and>
   transform_extent (mock_env (PList []) (\<lambda>i. False))
     \<lparr>xMinimum = 34, xMaximum = 35, yMinimum = 31, yMaximum = 32\<rparr>
     = Inr \<lparr>xMinimum = 34, xMaximum = 35, yMinimum = 31, yMaximum = 32\<rparr>"
  using bounds_overwrite_extra_parameters [of "base_url @ ''/siri_vehicle_locations/list''"
      "[(PStr ''lon__greater_or_equal'', PFloat 34), (PStr ''recorded_at_time_to'', PStr ''x''),
        (PStr ''lon__lower_or_equal'', PFloat 35), (PStr ''lat__greater_or_equal'', PFloat 31),
        (PStr ''lat__lower_or_equal'', PFloat 32)]"
      "mock_env (PList []) (\<lambda>i. False)"
      "mock_parameters\<lparr>
         INPUT_PARAMS := ''{'lon__greater_or_equal': 0, 'recorded_at_time_to': 'x'}'',
         INPUT_EXTENT := Some \<lparr>xMinimum = 34, xMaximum = 35, yMinimum = 31, yMaximum = 32\<rparr>\<rparr>"
      "[(PStr ''lon__greater_or_equal'', PInt 0), (PStr ''recorded_at_time_to'', PStr ''x'')]"
      "\<lparr>xMinimum = 34, xMaximum = 35, yMinimum = 31, yMaximum = 32\<rparr>"
      "\<lparr>xMinimum = 34, xMaximum = 35, yMinimum = 31, yMaximum = 32\<rparr>"]
  by (simp add: mock_simps)


subsection \<open>C7: absent and null values\<close>

text \<open>
  C7, as the code has it. For every record and every field of the schema whose upstream
  value is absent or null, the attribute computed for the field is a typed null, and it
  stands at the field's position whenever the mapping of the record returns. The mapping
  returns when each timestamp field of the record is absent, null or a string.
\<close>

theorem absent_values_become_null:
  assumes k: "k < 18"
    and absent: "map_of kv (PStr (original_key (fst (field_definitions ! k)))) \<in> {None, Some PNone}"
  shows "attribute E kv (field_definitions ! k) = Inr QVariantNull \<and>
         (\<forall>vals. attributes_of E kv field_definitions = Inr vals \<longrightarrow>
            length vals = 18 \<and> vals ! k = QVariantNull) \<and>
         ((\<forall>f \<in> set field_definitions. snd f = QDateTime \<longrightarrow>
             dict_get kv (original_key (fst f)) = PNone \<or>
             (\<exists>s. dict_get kv (original_key (fst f)) = PStr s)) \<longrightarrow>
          (\<exists>vals. attributes_of E kv field_definitions = Inr vals))"
proof (intro conjI allI impI)
  show a: "attribute E kv (field_definitions ! k) = Inr QVariantNull"
    using absent by (rule attribute_absent)
  fix vals assume v: "attributes_of E kv field_definitions = Inr vals"
  from attributes_of_Inr [OF v] k a
  show "length vals = 18" "vals ! k = QVariantNull"
    by (auto simp: length_field_definitions)
next
  assume "\<forall>f \<in> set field_definitions. snd f = QDateTime \<longrightarrow>
             dict_get kv (original_key (fst f)) = PNone \<or>
             (\<exists>s. dict_get kv (original_key (fst f)) = PStr s)"
  then have "\<forall>f \<in> set field_definitions. \<exists>a. attribute E kv f = Inr a"
    using attribute_returns [of _ kv E] by blast
  then show "\<exists>vals. attributes_of E kv field_definitions = Inr vals"
    by (rule attributes_of_total)
qed

text \<open>The null longitude of the unlocated record.\<close>

theorem absent_values_become_null_witness:
  "map_of [(PStr ''id'', PInt 2), (PStr ''lon'', PNone), (PStr ''lat'', PFloat (3207 / 100))]
     (PStr (original_key (fst (field_definitions ! 4)))) = Some (PNone :: rat pyval) \<and>
   attributes_of (mock_env (PList [unlocated]) (\<lambda>i. False))
     [(PStr ''id'', PInt 2), (PStr ''lon'', PNone), (PStr ''lat'', PFloat (3207 / 100))]
     field_definitions
   = Inr [PyValue (PInt 2), QVariantNull, QVariantNull, QVariantNull,
          QVariantNull, PyValue (PFloat (3207 / 100)), QVariantNull,
          QVariantNull, QVariantNull, QVariantNull, QVariantNull, QVariantNull,
          QVariantNull, QVariantNull, QVariantNull, QVariantNull, QVariantNull,
          QVariantNull] \<and>
   attribute (mock_env (PList [unlocated]) (\<lambda>i. False))
     [(PStr ''id'', PInt 2), (PStr ''lon'', PNone), (PStr ''lat'', PFloat (3207 / 100))]
     (field_definitions ! 4) = Inr QVariantNull"
proof -
  have a: "map_of [(PStr ''id'', PInt 2), (PStr ''lon'', PNone), (PStr ''lat'', PFloat (3207 / 100))]
     (PStr (original_key (fst (field_definitions ! 4)))) = Some (PNone :: rat pyval)"
    by (simp add: nth_field_definitions original_key_def key_map_def)
  have b: "attributes_of (mock_env (PList [unlocated]) (\<lambda>i. False))
     [(PStr ''id'', PInt 2), (PStr ''lon'', PNone), (PStr ''lat'', PFloat (3207 / 100))]
     field_definitions
   = Inr [PyValue (PInt 2), QVariantNull, QVariantNull, QVariantNull,
          QVariantNull, PyValue (PFloat (3207 / 100)), QVariantNull,
          QVariantNull, QVariantNull, QVariantNull, QVariantNull, QVariantNull,
          QVariantNull, QVariantNull, QVariantNull, QVariantNull, QVariantNull,
          QVariantNull]"
    by (simp add: item_simps)
  have k: "(4::nat) < 18" by simp
  have m: "map_of [(PStr ''id'', PInt 2), (PStr ''lon'', PNone), (PStr ''lat'', PFloat (3207 / 100))]
     (PStr (original_key (fst (field_definitions ! 4)))) \<in> {None, Some (PNone :: rat pyval)}"
    by (simp only: a insert_iff simp_thms)
  from absent_values_become_null [OF k m, where E = "mock_env (PList [unlocated]) (\<lambda>i. False)"]
  have c: "attribute (mock_env (PList [unlocated]) (\<lambda>i. False))
     [(PStr ''id'', PInt 2), (PStr ''lon'', PNone), (PStr ''lat'', PFloat (3207 / 100))]
     (field_definitions ! 4) = Inr QVariantNull" by (rule conjunct1)
  from a b c show ?thesis by (intro conjI)
qed

text \<open>
  C7 as stated fails: a record may lack \<^verbatim>\<open>id\<close> and hold a number under \<^verbatim>\<open>recorded_at_time\<close>;
  \<^verbatim>\<open>QDateTime.fromString\<close> raises \<^verbatim>\<open>TypeError\<close> for the number, so that an exception leaves the
  mapping of the record and the run.
\<close>

theorem numeric_timestamp_aborts_the_mapping:
  "map_of [(PStr ''recorded_at_time'', PInt 1700000000)] (PStr (original_key ''id''))
     = (None :: rat pyval option) \<and>
   (''id'', QLongLong) \<in> set field_definitions \<and>
   attributes_of (mock_env (PList [numeric_recorded_at]) (\<lambda>i. False))
     [(PStr ''recorded_at_time'', PInt 1700000000)] field_definitions = Inl TypeError \<and>
   snd (processAlgorithm (mock_env (PList [numeric_recorded_at]) (\<lambda>i. False)) mock_parameters)
     = Inl (Uncaught TypeError)"
  by (simp add: mock_simps item_simps numeric_recorded_at_def)


subsection \<open>C8: timestamps that are no dates\<close>

text \<open>
  C8, as the code has it. For every record whose value for a timestamp field is a string,
  a date or not, the attribute of the field is the \<^verbatim>\<open>QDateTime\<close> that \<^verbatim>\<open>QDateTime.fromString\<close>
  returns for the string, invalid when the string is no date; it stands at the field's
  position whenever the mapping returns; an exception of the mapping comes from another
  field; and the mapping returns when the other timestamp field is absent, null or a string
  as well.
\<close>

theorem timestamp_text_is_converted:
  assumes k: "k < 18"
    and ts: "snd (field_definitions ! k) = QDateTime"
    and str: "dict_get kv (original_key (fst (field_definitions ! k))) = PStr s"
  shows "attribute E kv (field_definitions ! k) = Inr (QDateTimeValue (dt_fromString E s)) \<and>
         (\<forall>vals. attributes_of E kv field_definitions = Inr vals \<longrightarrow>
            vals ! k = QDateTimeValue (dt_fromString E s)) \<and>
         (\<forall>e. attributes_of E kv field_definitions = Inl e \<longrightarrow>
            (\<exists>f \<in> set field_definitions. f \<noteq> field_definitions ! k \<and> attribute E kv f = Inl e)) \<and>
         ((\<forall>f \<in> set field_definitions. snd f = QDateTime \<longrightarrow>
             dict_get kv (original_key (fst f)) = PNone \<or>
             (\<exists>s. dict_get kv (original_key (fst f)) = PStr s)) \<longrightarrow>
          (\<exists>vals. attributes_of E kv field_definitions = Inr vals))"
proof (intro conjI allI impI)
  show a: "attribute E kv (field_definitions ! k) = Inr (QDateTimeValue (dt_fromString E s))"
    using ts str by (rule attribute_text)
  {
    fix vals assume v: "attributes_of E kv field_definitions = Inr vals"
    from attributes_of_Inr [OF v] k a
    show "vals ! k = QDateTimeValue (dt_fromString E s)"
      by (auto simp: length_field_definitions)
  }
  {
    fix e assume "attributes_of E kv field_definitions = Inl e"
    from attributes_of_Inl [OF this] obtain f where
      f: "f \<in> set field_definitions" "attribute E kv f = Inl e" by blast
    with a have "f \<noteq> field_definitions ! k" by auto
    with f show "\<exists>f \<in> set field_definitions. f \<noteq> field_definitions ! k \<and> attribute E kv f = Inl e"
      by blast
  }
  {
    assume "\<forall>f \<in> set field_definitions. snd f = QDateTime \<longrightarrow>
             dict_get kv (original_key (fst f)) = PNone \<or>
             (\<exists>s. dict_get kv (original_key (fst f)) = PStr s)"
    then have "\<forall>f \<in> set field_definitions. \<exists>a. attribute E kv f = Inr a"
      using attribute_returns [of _ kv E] by blast
    then show "\<exists>vals. attributes_of E kv field_definitions = Inr vals"
      by (rule attributes_of_total)
  }
qed

text \<open>The text \<^verbatim>\<open>yesterday\<close> under \<^verbatim>\<open>recorded_at_time\<close> gives an invalid \<^verbatim>\<open>QDateTime\<close>.\<close>

theorem timestamp_text_is_converted_witness:
  "snd (field_definitions ! 3) = QDateTime \<and>
   dict_get [(PStr ''id'', PInt 5), (PStr ''recorded_at_time'', PStr ''yesterday'')]
     (original_key (fst (field_definitions ! 3))) = (PStr ''yesterday'' :: rat pyval) \<and>
   \<not> dt_isValid (mock_env (PList [malformed_recorded_at]) (\<lambda>i. False))
       (dt_fromString (mock_env (PList [malformed_recorded_at]) (\<lambda>i. False)) ''yesterday'') \<and>
   attributes_of (mock_env (PList [malformed_recorded_at]) (\<lambda>i. False))
     [(PStr ''id'', PInt 5), (PStr ''recorded_at_time'', PStr ''yesterday'')] field_definitions
   = Inr [PyValue (PInt 5), QVariantNull, QVariantNull, QDateTimeValue None,
          QVariantNull, QVariantNull, QVariantNull, QVariantNull, QVariantNull,
          QVariantNull, QVariantNull, QVariantNull, QVariantNull, QVariantNull,
          QVariantNull, QVariantNull, QVariantNull, QVariantNull] \<and>
   attribute (mock_env (PList [malformed_recorded_at]) (\<lambda>i. False))
     [(PStr ''id'', PInt 5), (PStr ''recorded_at_time'', PStr ''yesterday'')]
     (field_definitions ! 3) = Inr (QDateTimeValue None)"
proof -
  have a: "snd (field_definitions ! 3) = QDateTime" by (simp add: nth_field_definitions)
  have b: "dict_get [(PStr ''id'', PInt 5), (PStr ''recorded_at_time'', PStr ''yesterday'')]
     (original_key (fst (field_definitions ! 3))) = (PStr ''yesterday'' :: rat pyval)"
    by (simp add: nth_field_definitions original_key_def key_map_def dict_get_def)
  have c: "dt_fromString (mock_env (PList [malformed_recorded_at]) (\<lambda>i. False)) ''yesterday'' = None"
    "\<not> dt_isValid (mock_env (PList [malformed_recorded_at]) (\<lambda>i. False)) None"
    by (simp_all add: mock_env_def)
  have d: "attributes_of (mock_env (PList [malformed_recorded_at]) (\<lambda>i. False))
     [(PStr ''id'', PInt 5), (PStr ''recorded_at_time'', PStr ''yesterday'')] field_definitions
   = Inr [PyValue (PInt 5), QVariantNull, QVariantNull, QDateTimeValue None,
          QVariantNull, QVariantNull, QVariantNull, QVariantNull, QVariantNull,
          QVariantNull, QVariantNull, QVariantNull, QVariantNull, QVariantNull,
          QVariantNull, QVariantNull, QVariantNull, QVariantNull]"
    by (simp add: item_simps mock_env_def)
  have k: "(3::nat) < 18" by simp
  from timestamp_text_is_converted [OF k a b,
      where E = "mock_env (PList [malformed_recorded_at]) (\<lambda>i. False)"]
  have "attribute (mock_env (PList [malformed_recorded_at]) (\<lambda>i. False))
     [(PStr ''id'', PInt 5), (PStr ''recorded_at_time'', PStr ''yesterday'')]
     (field_definitions ! 3)
     = Inr (QDateTimeValue
         (dt_fromString (mock_env (PList [malformed_recorded_at]) (\<lambda>i. False)) ''yesterday''))"
    by (rule conjunct1)
  then have e: "attribute (mock_env (PList [malformed_recorded_at]) (\<lambda>i. False))
     [(PStr ''id'', PInt 5), (PStr ''recorded_at_time'', PStr ''yesterday'')]
     (field_definitions ! 3) = Inr (QDateTimeValue None)"
    by (simp only: c(1))
  have f: "\<not> dt_isValid (mock_env (PList [malformed_recorded_at]) (\<lambda>i. False))
       (dt_fromString (mock_env (PList [malformed_recorded_at]) (\<lambda>i. False)) ''yesterday'')"
    by (simp add: mock_env_def)
  from a b f d e show ?thesis by (intro conjI)
qed

text \<open>
  C8 as stated fails: the number 1700000000 under \<^verbatim>\<open>siri_ride__scheduled_start_time\<close> is
  present and is no ISO-8601 date; \<^verbatim>\<open>QDateTime.fromString\<close> raises \<^verbatim>\<open>TypeError\<close> for it, and the
  run fails after it has written the record before.
\<close>

theorem numeric_timestamp_fails_the_run:
  "dict_get [(PStr ''id'', PInt 4), (PStr ''siri_ride__scheduled_start_time'', PInt 1700000000)]
     (original_key ''scheduled_start'') = (PInt 1700000000 :: rat pyval) \<and>
   (''scheduled_start'', QDateTime) \<in> set field_definitions \<and>
   attributes_of (mock_env (PList [located, numeric_scheduled_start]) (\<lambda>i. False))
     [(PStr ''id'', PInt 4), (PStr ''siri_ride__scheduled_start_time'', PInt 1700000000)]
     field_definitions = Inl TypeError \<and>
   snd (processAlgorithm (mock_env (PList [located, numeric_scheduled_start]) (\<lambda>i. False))
          mock_parameters) = Inl (Uncaught TypeError)"
  by (simp add: mock_simps item_simps located_def numeric_scheduled_start_def progress_Suc_forms)


subsection \<open>C9: cancellation\<close>

text \<open>
  C9. When the loop finds the run cancelled at the check before a record, having handled the
  records before it without an exception, no later record is written: the features in the
  sink are those the loop wrote for the records before the check, and the algorithm returns
  the destination id of the sink, not an error.
\<close>

theorem cancellation_stops_emission:
  assumes q: "build_query E P = (ev1, Inr ps)"
    and d: "read_reply E (network_get E (base_url @ INPUT_PATH P) ps) = Inr (PList (pre @ post))"
    and ne: "post \<noteq> []"
    and sink: "parameterAsSink E = Some dest_id"
    and c: "isCanceled E (length pre)"
    and before: "emit_loop E (length (pre @ post)) 0 pre = (evs, None)"
  shows "snd (processAlgorithm E P) = Inr (Some dest_id) \<and>
         features_written (fst (processAlgorithm E P)) = features_written evs \<and>
         (\<forall>gv \<in> set (features_written (fst (processAlgorithm E P))).
            \<exists>item \<in> set pre. process_item E item = Inr (Some gv))"
proof -
  have "emit_loop E (length (pre @ post)) 0 (pre @ post) = emit_loop E (length (pre @ post)) 0 pre"
    using c ne by (intro emit_loop_cancel_prefix) simp_all
  with before have loop: "emit_loop E (length (pre @ post)) 0 (pre @ post) = (evs, None)" by simp
  have ne': "pre @ post \<noteq> []" using ne by simp
  note pr = run_with_items_projections [OF q d ne' sink loop]
  have "\<exists>item \<in> set pre. process_item E item = Inr (Some gv)"
    if "gv \<in> set (features_written evs)" for gv
    using emit_loop_features [OF before features_written_mem [OF that]] by simp
  then show ?thesis using pr(1) pr(4) by simp
qed

text \<open>Two records in the response; the caller cancels before the second.\<close>

theorem cancellation_stops_emission_witness:
  "read_reply (mock_env (PList [located, unlocated]) (\<lambda>i. i = 1))
     (network_get (mock_env (PList [located, unlocated]) (\<lambda>i. i = 1))
        (base_url @ INPUT_PATH mock_parameters) [(PStr ''limit'', PInt 2)])
     = Inr (PList ([located] @ [unlocated])) \<and>
   isCanceled (mock_env (PList [located, unlocated]) (\<lambda>i. i = 1)) (length [located]) \<and>
   snd (emit_loop (mock_env (PList [located, unlocated]) (\<lambda>i. i = 1))
          (length ([located] @ [unlocated])) 0 [located]) = None \<and>
   length (features_written (fst (processAlgorithm
     (mock_env (PList [located, unlocated]) (\<lambda>i. i = 1)) mock_parameters))) = 1 \<and>
   snd (processAlgorithm (mock_env (PList [located, unlocated]) (\<lambda>i. i = 1)) mock_parameters)
     = Inr (Some ''memory:'')"
proof -
  have c: "isCanceled (mock_env (PList [located, unlocated]) (\<lambda>i. i = 1)) (length [located])"
    by (simp add: mock_env_def)
  have r: "read_reply (mock_env (PList [located, unlocated]) (\<lambda>i. i = 1))
     (network_get (mock_env (PList [located, unlocated]) (\<lambda>i. i = 1))
        (base_url @ INPUT_PATH mock_parameters) [(PStr ''limit'', PInt 2)])
     = Inr (PList ([located] @ [unlocated]))"
    by (simp add: mock_reply)
  have b: "emit_loop (mock_env (PList [located, unlocated]) (\<lambda>i. i = 1))
      (length ([located] @ [unlocated])) 0 [located] =
     ([AddFeature (Some (1739 / 50, 3207 / 100))
        [PyValue (PInt 1), QVariantNull, QVariantNull,
         QDateTimeValue (Some 300), PyValue (PFloat (1739 / 50)),
         PyValue (PFloat (3207 / 100)), QVariantNull, QVariantNull,
         QVariantNull, QVariantNull, QVariantNull, QVariantNull, QVariantNull,
         QVariantNull, QVariantNull, QVariantNull, QVariantNull, QVariantNull],
       SetProgress 50], None)"
    using mock_loop_before_cancel [of "PList [located, unlocated]"] by simp
  from cancellation_stops_emission [OF mock_query r _ mock_sink c b]
  show ?thesis using c r b by simp
qed


subsection \<open>C10: the attributes of a written feature\<close>



end
